theory Spec2Isabelle
  imports Complex_Main
begin

section \<open>Python values\<close>

text \<open>
  The three operations of \<^verbatim>\<open>ticketmaster_anaylsis.py\<close> work on what
  \<^verbatim>\<open>response.json()\<close> returns: \<^verbatim>\<open>None\<close>, booleans, integers, floats, strings,
  lists and dictionaries with string keys. The same type holds the values the operations
  put into their rows (\<^verbatim>\<open>'N/A'\<close>, \<^verbatim>\<open>0\<close>, \<^verbatim>\<open>None\<close>, an average price).

  A string is a list of characters, one \<open>char\<close> for each code point below 256.
  A dictionary is an association list read by \<open>map_of\<close> (the first binding of a key is
  the dictionary's). An integer is unbounded, as in Python. A float \<open>JFloat q\<close> is the
  finite double of value \<open>q\<close>; sums and quotients of floats are kept exact, so
  rounding, infinities and NaN are outside this model, and what is proved about float
  arithmetic is exact only where Python's result is representable.
\<close>

datatype json =
    JNull
  | JBool bool
  | JInt int
  | JFloat rat
  | JStr string
  | JList "json list"
  | JObj "(string \<times> json) list"

text \<open>
  Exceptions are values. \<open>HTTPError\<close> is what \<^verbatim>\<open>raise_for_status\<close> raises,
  \<open>TransportError\<close> stands for every other \<^verbatim>\<open>requests.exceptions.RequestException\<close>
  (connection errors, timeouts), \<open>JSONDecodeError\<close> is raised by \<^verbatim>\<open>response.json()\<close>
  on a body that is not JSON. Each carries the text \<^verbatim>\<open>str(e)\<close> gives, but for \<open>KeyError\<close>,
  which carries the key's \<^verbatim>\<open>repr\<close>.
\<close>

datatype exn =
    ValueError string
  | KeyError string
  | IndexError string
  | TypeError string
  | AttributeError string
  | OverflowError string
  | UnboundLocalError string
  | HTTPError string
  | TransportError string
  | JSONDecodeError string

fun str_exn :: "exn \<Rightarrow> string" where
  "str_exn (ValueError m) = m"
| "str_exn (KeyError k) = k"
| "str_exn (IndexError m) = m"
| "str_exn (TypeError m) = m"
| "str_exn (AttributeError m) = m"
| "str_exn (OverflowError m) = m"
| "str_exn (UnboundLocalError m) = m"
| "str_exn (HTTPError m) = m"
| "str_exn (TransportError m) = m"
| "str_exn (JSONDecodeError m) = m"

text \<open>\<^verbatim>\<open>except requests.exceptions.RequestException\<close> and \<^verbatim>\<open>except requests.HTTPError\<close>.\<close>

fun is_RequestException :: "exn \<Rightarrow> bool" where
  "is_RequestException (HTTPError m) = True"
| "is_RequestException (TransportError m) = True"
| "is_RequestException (JSONDecodeError m) = True"
| "is_RequestException e = False"

fun is_HTTPError :: "exn \<Rightarrow> bool" where
  "is_HTTPError (HTTPError m) = True"
| "is_HTTPError e = False"

text \<open>Sequencing of computations that may raise: the first exception ends the evaluation.\<close>

fun and_then :: "exn + 'a \<Rightarrow> ('a \<Rightarrow> exn + 'b) \<Rightarrow> exn + 'b" where
  "and_then (Inl e) f = Inl e"
| "and_then (Inr v) f = f v"

fun for_each :: "('a \<Rightarrow> exn + 'b) \<Rightarrow> 'a list \<Rightarrow> exn + 'b list" where
  "for_each f [] = Inr []"
| "for_each f (x # xs) =
     (case f x of
        Inl e \<Rightarrow> Inl e
      | Inr y \<Rightarrow> (case for_each f xs of Inl e \<Rightarrow> Inl e | Inr ys \<Rightarrow> Inr (y # ys)))"

subsection \<open>Text\<close>

definition quoted :: "string \<Rightarrow> string" where
  "quoted s = CHR 0x27 # s @ [CHR 0x27]"

definition dquoted :: "string \<Rightarrow> string" where
  "dquoted s = CHR 0x22 # s @ [CHR 0x22]"

fun str_nat :: "nat \<Rightarrow> string" where
  "str_nat n =
     (if n < 10 then [char_of (48 + n)]
      else str_nat (n div 10) @ [char_of (48 + n mod 10)])"

declare str_nat.simps [simp del]

definition str_int :: "int \<Rightarrow> string" where
  "str_int i = (if i < 0 then CHR ''-'' # str_nat (nat (- i)) else str_nat (nat i))"

text \<open>
  \<^verbatim>\<open>str.lower()\<close> on code points below 256: \<^verbatim>\<open>A\<close> to \<^verbatim>\<open>Z\<close> and the accented capitals
  192 to 222 (but the multiplication sign, 215) move up by 32.
\<close>

definition lower_char :: "char \<Rightarrow> char" where
  "lower_char c =
     (let n = (of_char c :: nat)
      in if (65 \<le> n \<and> n \<le> 90) \<or> (192 \<le> n \<and> n \<le> 222 \<and> n \<noteq> 215)
         then char_of (n + 32) else c)"

definition lower :: "string \<Rightarrow> string" where
  "lower s = map lower_char s"

text \<open>
  \<^verbatim>\<open>str.split()\<close> with no argument cuts at runs of whitespace and returns no empty word.
  The whitespace code points below 256 are 9 to 13, 28 to 32, 133 and 160.
\<close>

definition is_space :: "char \<Rightarrow> bool" where
  "is_space c =
     (let n = (of_char c :: nat)
      in (9 \<le> n \<and> n \<le> 13) \<or> (28 \<le> n \<and> n \<le> 32) \<or> n = 133 \<or> n = 160)"

fun split_from :: "string \<Rightarrow> string \<Rightarrow> string list" where
  "split_from word [] = (if word = [] then [] else [rev word])"
| "split_from word (c # cs) =
     (if is_space c
      then (if word = [] then split_from [] cs else rev word # split_from [] cs)
      else split_from (c # word) cs)"

definition split :: "string \<Rightarrow> string list" where
  "split s = split_from [] s"

fun starts_with :: "string \<Rightarrow> string \<Rightarrow> bool" where
  "starts_with s [] = True"
| "starts_with [] (p # ps) = False"
| "starts_with (c # cs) (p # ps) = (c = p \<and> starts_with cs ps)"

fun contains_text :: "string \<Rightarrow> string \<Rightarrow> bool" where
  "contains_text [] p = (p = [])"
| "contains_text (c # cs) p = (starts_with (c # cs) p \<or> contains_text cs p)"

subsection \<open>Operators and methods\<close>

fun type_name :: "json \<Rightarrow> string" where
  "type_name JNull = ''NoneType''"
| "type_name (JBool b) = ''bool''"
| "type_name (JInt i) = ''int''"
| "type_name (JFloat q) = ''float''"
| "type_name (JStr s) = ''str''"
| "type_name (JList xs) = ''list''"
| "type_name (JObj kvs) = ''dict''"

text \<open>The truth value of an object: \<^verbatim>\<open>None\<close>, \<^verbatim>\<open>False\<close>, zero and the empty containers are false.\<close>

fun truthy :: "json \<Rightarrow> bool" where
  "truthy JNull = False"
| "truthy (JBool b) = b"
| "truthy (JInt i) = (i \<noteq> 0)"
| "truthy (JFloat q) = (q \<noteq> 0)"
| "truthy (JStr s) = (s \<noteq> [])"
| "truthy (JList xs) = (xs \<noteq> [])"
| "truthy (JObj kvs) = (kvs \<noteq> [])"

definition no_attribute :: "json \<Rightarrow> string \<Rightarrow> exn" where
  "no_attribute v a =
     AttributeError (quoted (type_name v) @ '' object has no attribute '' @ quoted a)"

text \<open>\<^verbatim>\<open>v.get(k, d)\<close>: only a dictionary has the method.\<close>

fun get :: "json \<Rightarrow> string \<Rightarrow> json \<Rightarrow> exn + json" where
  "get (JObj kvs) k d = Inr (case map_of kvs k of None \<Rightarrow> d | Some v \<Rightarrow> v)"
| "get v k d = Inl (no_attribute v ''get'')"

text \<open>\<^verbatim>\<open>k in v\<close> for a string \<open>k\<close>: a key of a dictionary, an element of a list, a part of a string.\<close>

fun contains :: "json \<Rightarrow> string \<Rightarrow> exn + bool" where
  "contains (JObj kvs) k = Inr (map_of kvs k \<noteq> None)"
| "contains (JList xs) k = Inr (JStr k \<in> set xs)"
| "contains (JStr s) k = Inr (contains_text s k)"
| "contains v k =
     Inl (TypeError (''argument of type '' @ quoted (type_name v) @ '' is not iterable''))"

text \<open>\<^verbatim>\<open>v[k]\<close> for a string \<open>k\<close>.\<close>

fun item :: "json \<Rightarrow> string \<Rightarrow> exn + json" where
  "item (JObj kvs) k = (case map_of kvs k of None \<Rightarrow> Inl (KeyError (quoted k)) | Some v \<Rightarrow> Inr v)"
| "item (JList xs) k = Inl (TypeError ''list indices must be integers or slices, not str'')"
| "item (JStr s) k = Inl (TypeError (''string indices must be integers, not '' @ quoted ''str''))"
| "item v k = Inl (TypeError (quoted (type_name v) @ '' object is not subscriptable''))"

text \<open>\<^verbatim>\<open>v[0]\<close>. A dictionary from JSON has string keys only, so the key \<^verbatim>\<open>0\<close> is never there.\<close>

fun first :: "json \<Rightarrow> exn + json" where
  "first (JList []) = Inl (IndexError ''list index out of range'')"
| "first (JList (x # xs)) = Inr x"
| "first (JStr []) = Inl (IndexError ''string index out of range'')"
| "first (JStr (c # cs)) = Inr (JStr [c])"
| "first (JObj kvs) = Inl (KeyError ''0'')"
| "first v = Inl (TypeError (quoted (type_name v) @ '' object is not subscriptable''))"

text \<open>
  \<^verbatim>\<open>for x in v\<close>: the elements of a list, the keys of a dictionary (each once, in the
  order of their first binding), the characters of a string.
\<close>

fun keys_of :: "(string \<times> json) list \<Rightarrow> string list \<Rightarrow> string list" where
  "keys_of [] seen = []"
| "keys_of ((k, v) # kvs) seen =
     (if k \<in> set seen then keys_of kvs seen else k # keys_of kvs (k # seen))"

fun iter :: "json \<Rightarrow> exn + json list" where
  "iter (JList xs) = Inr xs"
| "iter (JObj kvs) = Inr (map JStr (keys_of kvs []))"
| "iter (JStr s) = Inr (map (\<lambda>c. JStr [c]) s)"
| "iter v = Inl (TypeError (quoted (type_name v) @ '' object is not iterable''))"

text \<open>\<^verbatim>\<open>v.lower()\<close> and \<^verbatim>\<open>v.split()\<close>: methods of strings.\<close>

fun lower_method :: "json \<Rightarrow> exn + string" where
  "lower_method (JStr s) = Inr (lower s)"
| "lower_method v = Inl (no_attribute v ''lower'')"

text \<open>
  Numbers. \<^verbatim>\<open>bool\<close> is a subclass of \<^verbatim>\<open>int\<close>. An integer becomes a float when it meets
  one, and when it is divided by \<^verbatim>\<open>/\<close>; both raise \<^verbatim>\<open>OverflowError\<close> when the
  result, rounded to nearest, is not a finite double: from \<open>2^1024 - 2^970\<close> on.
\<close>

fun as_int :: "json \<Rightarrow> int option" where
  "as_int (JBool b) = Some (if b then 1 else 0)"
| "as_int (JInt i) = Some i"
| "as_int v = None"

definition float_limit :: rat where
  "float_limit = 2 ^ 1024 - 2 ^ 970"

definition to_float :: "int \<Rightarrow> exn + rat" where
  "to_float i =
     (if float_limit \<le> \<bar>of_int i\<bar> then Inl (OverflowError ''int too large to convert to float'')
      else Inr (of_int i))"

definition unsupported :: "string \<Rightarrow> json \<Rightarrow> json \<Rightarrow> exn" where
  "unsupported opr a b =
     TypeError (''unsupported operand type(s) for '' @ opr @ '': '' @ quoted (type_name a)
       @ '' and '' @ quoted (type_name b))"

definition cannot_concatenate :: "json \<Rightarrow> json \<Rightarrow> exn" where
  "cannot_concatenate a b =
     TypeError (''can only concatenate '' @ type_name a @ '' (not '' @ dquoted (type_name b)
       @ '') to '' @ type_name a)"

text \<open>\<^verbatim>\<open>a + b\<close>.\<close>

definition add :: "json \<Rightarrow> json \<Rightarrow> exn + json" where
  "add a b =
     (case (a, b) of
        (JFloat p, JFloat q) \<Rightarrow> Inr (JFloat (p + q))
      | (JStr s, JStr t) \<Rightarrow> Inr (JStr (s @ t))
      | (JStr s, _) \<Rightarrow> Inl (cannot_concatenate a b)
      | (JList xs, JList ys) \<Rightarrow> Inr (JList (xs @ ys))
      | (JList xs, _) \<Rightarrow> Inl (cannot_concatenate a b)
      | (JFloat p, _) \<Rightarrow>
          (case as_int b of
             None \<Rightarrow> Inl (unsupported ''+'' a b)
           | Some j \<Rightarrow> and_then (to_float j) (\<lambda>q. Inr (JFloat (p + q))))
      | (_, JFloat q) \<Rightarrow>
          (case as_int a of
             None \<Rightarrow> Inl (unsupported ''+'' a b)
           | Some i \<Rightarrow> and_then (to_float i) (\<lambda>p. Inr (JFloat (p + q))))
      | _ \<Rightarrow>
          (case (as_int a, as_int b) of
             (Some i, Some j) \<Rightarrow> Inr (JInt (i + j))
           | _ \<Rightarrow> Inl (unsupported ''+'' a b)))"

text \<open>\<^verbatim>\<open>a / 2\<close>.\<close>

definition halve :: "json \<Rightarrow> exn + json" where
  "halve a =
     (case a of
        JFloat p \<Rightarrow> Inr (JFloat (p / 2))
      | _ \<Rightarrow>
          (case as_int a of
             None \<Rightarrow> Inl (unsupported ''/'' a (JInt 2))
           | Some i \<Rightarrow>
               if float_limit \<le> \<bar>of_int i / 2\<bar>
               then Inl (OverflowError ''integer division result too large for a float'')
               else Inr (JFloat (of_int i / 2))))"



section \<open>The network\<close>

text \<open>
  What \<^verbatim>\<open>requests.get\<close> gives back. A response has its status code, its reason
  phrase and URL (they make the text of the \<open>HTTPError\<close>) and what
  \<^verbatim>\<open>response.json()\<close> does on it: raise, or return the decoded body.
\<close>

record response =
  status_code :: int
  reason :: string
  url :: string
  payload :: "exn + json"

datatype outcome = Raises exn | Returns response

text \<open>A GET request: the URL and the \<^verbatim>\<open>params\<close> dictionary (\<open>None\<close> for a parameter left out).\<close>

datatype request = Get string "(string \<times> string option) list"

text \<open>
  The network answers the \<open>n\<close>-th request of the process (counted from 0) as it
  likes. The world records how many requests were sent and each \<^verbatim>\<open>time.sleep\<close>.
\<close>

type_synonym network = "nat \<Rightarrow> request \<Rightarrow> outcome"

record world =
  requests :: nat
  sleeps :: "int list"

definition send :: "network \<Rightarrow> request \<Rightarrow> world \<Rightarrow> outcome \<times> world" where
  "send net rq w = (net (requests w) rq, w\<lparr>requests := Suc (requests w)\<rparr>)"

definition sleep :: "int \<Rightarrow> world \<Rightarrow> world" where
  "sleep seconds w = w\<lparr>sleeps := sleeps w @ [seconds]\<rparr>"

text \<open>\<^verbatim>\<open>Response.raise_for_status\<close>: a status from 400 to 599 raises.\<close>

definition raise_for_status :: "response \<Rightarrow> exn + unit" where
  "raise_for_status r =
     (if 400 \<le> status_code r \<and> status_code r < 500
      then Inl (HTTPError (str_int (status_code r) @ '' Client Error: '' @ reason r
                 @ '' for url: '' @ url r))
      else if 500 \<le> status_code r \<and> status_code r < 600
      then Inl (HTTPError (str_int (status_code r) @ '' Server Error: '' @ reason r
                 @ '' for url: '' @ url r))
      else Inr ())"

text \<open>
  The truth value of a response object is \<^verbatim>\<open>Response.ok\<close>: whether
  \<^verbatim>\<open>raise_for_status\<close> would return. \<^verbatim>\<open>None\<close> is false.
\<close>

definition ok :: "response \<Rightarrow> bool" where
  "ok r = (case raise_for_status r of Inl e \<Rightarrow> False | Inr u \<Rightarrow> True)"

fun response_truthy :: "response option \<Rightarrow> bool" where
  "response_truthy None = False"
| "response_truthy (Some r) = ok r"

text \<open>
  A table is what \<^verbatim>\<open>pd.DataFrame\<close> is given: the list of rows, each the dictionary
  of its columns; \<^verbatim>\<open>pd.DataFrame()\<close> is the empty list. An operation returns the pair of
  a table and an optional error text.
\<close>

type_synonym row = "(string \<times> json) list"
type_synonym table = "row list"
type_synonym envelope = "table \<times> string option"

text \<open>How a retry loop is left: by a \<^verbatim>\<open>return\<close>, by an exception nothing catches, or at its end.\<close>

datatype loop_exit = Returned envelope | Raised exn | Completed "response option"

section \<open>Function 1: \<^verbatim>\<open>find_attraction_info\<close>\<close>

definition extract_attraction_info :: "json \<Rightarrow> exn + row" where
  "extract_attraction_info attraction =
     and_then (get attraction ''name'' (JStr ''N/A'')) (\<lambda>v_name.
     and_then (get attraction ''id'' (JStr ''N/A'')) (\<lambda>v_id.
     and_then (and_then (get attraction ''upcomingEvents'' (JObj []))
                 (\<lambda>u. get u ''ticketmaster'' (JInt 0))) (\<lambda>v_ticketmaster.
     and_then (and_then (get attraction ''upcomingEvents'' (JObj []))
                 (\<lambda>u. get u ''_total'' (JInt 0))) (\<lambda>v_total.
     Inr [(''name'', v_name),
          (''ID'', v_id),
          (''Ticketmaster Upcoming Events'', v_ticketmaster),
          (''Total Upcoming Events'', v_total)]))))"

text \<open>The body of one pass of the retry loop, up to the \<^verbatim>\<open>except\<close> clause.\<close>

datatype attempt_exit =
    Rate_limited response
  | Succeeded response
  | Excepted exn "response option"

definition attraction_attempt :: "network \<Rightarrow> request \<Rightarrow> world \<Rightarrow> attempt_exit \<times> world" where
  "attraction_attempt net rq w =
     (case send net rq w of
        (Raises e, w1) \<Rightarrow> (Excepted e None, w1)
      | (Returns r, w1) \<Rightarrow>
          if status_code r = 429 then (Rate_limited r, w1)
          else (case raise_for_status r of
                  Inl e \<Rightarrow> (Excepted e (Some r), w1)
                | Inr u \<Rightarrow> (Succeeded r, w1)))"

text \<open>
  \<^verbatim>\<open>for attempt in range(max_retries)\<close>, with the variables the loop carries:
  \<^verbatim>\<open>retry_delay\<close> and \<^verbatim>\<open>response\<close> (\<open>None\<close> while it is unbound).
\<close>

fun attraction_attempts ::
  "network \<Rightarrow> request \<Rightarrow> int \<Rightarrow> nat list \<Rightarrow> int \<Rightarrow> response option \<Rightarrow> world
   \<Rightarrow> loop_exit \<times> world" where
  "attraction_attempts net rq max_retries [] retry_delay response w = (Completed response, w)"
| "attraction_attempts net rq max_retries (attempt # rest) retry_delay response w =
     (case attraction_attempt net rq w of
        (Rate_limited r, w1) \<Rightarrow>
          attraction_attempts net rq max_retries rest (retry_delay * 2) (Some r)
            (sleep retry_delay w1)
      | (Succeeded r, w1) \<Rightarrow> (Completed (Some r), w1)
      | (Excepted e assigned, w1) \<Rightarrow>
          if is_RequestException e then
            if int attempt = max_retries - 1
            then (Returned ([], Some (''Failed to fetch data after '' @ str_int max_retries
                     @ '' attempts. Error: '' @ str_exn e)), w1)
            else attraction_attempts net rq max_retries rest (retry_delay * 2)
                   (case assigned of None \<Rightarrow> response | Some r \<Rightarrow> Some r)
                   (sleep retry_delay w1)
          else (Raised e, w1))"

text \<open>The loop over the candidates of a name search; \<^verbatim>\<open>matched_attractions\<close> is carried.\<close>

fun match_attractions :: "string list \<Rightarrow> json list \<Rightarrow> table \<Rightarrow> exn + table" where
  "match_attractions identifier_keywords [] matched_attractions = Inr matched_attractions"
| "match_attractions identifier_keywords (attraction # rest) matched_attractions =
     (case and_then (item attraction ''name'') lower_method of
        Inl e \<Rightarrow> Inl e
      | Inr lowered \<Rightarrow>
          let attraction_name_keywords = split lowered
          in if list_all (\<lambda>keyword. keyword \<in> set attraction_name_keywords) identifier_keywords
             then (case extract_attraction_info attraction of
                     Inl e \<Rightarrow> Inl e
                   | Inr info \<Rightarrow>
                       match_attractions identifier_keywords rest (matched_attractions @ [info]))
             else match_attractions identifier_keywords rest matched_attractions)"

text \<open>From \<^verbatim>\<open>data = response.json()\<close> to the final \<^verbatim>\<open>return\<close>.\<close>

definition process_attractions :: "string \<Rightarrow> string \<Rightarrow> response \<Rightarrow> exn + envelope" where
  "process_attractions identifier identifier_type response =
     and_then (payload response) (\<lambda>data.
       if identifier_type = ''name'' then
         and_then (and_then (contains data ''_embedded'') (\<lambda>has_embedded.
                     if has_embedded
                     then and_then (item data ''_embedded'') (\<lambda>embedded. contains embedded ''attractions'')
                     else Inr False)) (\<lambda>has_list.
           if has_list then
             let identifier_keywords = split (lower identifier)
             in and_then (and_then (and_then (item data ''_embedded'') (\<lambda>embedded. item embedded ''attractions'')) iter)
                  (\<lambda>attractions.
                and_then (match_attractions identifier_keywords attractions []) (\<lambda>matched_attractions.
                  if matched_attractions = []
                  then Inr (matched_attractions, Some ''No matching attractions found with the name.'')
                  else Inr (matched_attractions, None)))
           else Inr ([], Some ''No matching attractions found.''))
       else if identifier_type = ''id'' then
         and_then (and_then (contains data ''name'') (\<lambda>has_name.
                     if has_name then contains data ''id'' else Inr False)) (\<lambda>has_both.
           if has_both
           then and_then (extract_attraction_info data) (\<lambda>info. Inr ([info], None))
           else Inr ([], Some ''No matching attractions found by ID.''))
       else Inr ([], None))"

text \<open>The URL asked for: the keyword search for a name, the direct lookup for an id.\<close>

definition attraction_link :: "string \<Rightarrow> string \<Rightarrow> string \<Rightarrow> string" where
  "attraction_link identifier identifier_type api_key =
     (if identifier_type = ''name''
      then ''https://app.ticketmaster.com/discovery/v2/attractions.json?keyword=''
             @ identifier @ ''&apikey='' @ api_key
      else ''https://app.ticketmaster.com/discovery/v2/attractions/''
             @ identifier @ ''.json?apikey='' @ api_key)"

text \<open>The function as written, under the decorator.\<close>

definition find_attraction_info_wrapped ::
  "network \<Rightarrow> string \<Rightarrow> string \<Rightarrow> string \<Rightarrow> world \<Rightarrow> (exn + envelope) \<times> world" where
  "find_attraction_info_wrapped net identifier identifier_type api_key w =
     (if identifier_type \<notin> set [''name'', ''id'']
      then (Inl (ValueError ''Invalid identifier type. Must be 'name' or 'id'.''), w)
      else if identifier = []
      then (Inr ([], Some ''Identifier cannot be empty.''), w)
      else
        let link = attraction_link identifier identifier_type api_key;
            max_retries = 5;
            retry_delay = 1
        in case attraction_attempts net (Get link []) max_retries [0..<nat max_retries]
                  retry_delay None w of
             (Returned result, w1) \<Rightarrow> (Inr result, w1)
           | (Raised e, w1) \<Rightarrow> (Inl e, w1)
           | (Completed None, w1) \<Rightarrow>
               (Inl (UnboundLocalError
                  ''cannot access local variable 'response' where it is not associated with a value''), w1)
           | (Completed (Some response), w1) \<Rightarrow>
               if status_code response \<noteq> 200
               then (Inr ([], Some (''Error fetching data: Status code ''
                        @ str_int (status_code response))), w1)
               else (process_attractions identifier identifier_type response, w1))"

text \<open>
  \<^verbatim>\<open>@lru_cache(maxsize=100)\<close>: the results returned so far, keyed by the arguments, the
  most recently used first. A call whose key is cached returns the cached result and runs
  nothing; a call that raises caches nothing; a new result takes the place of the least
  recently used one when the cache is full.
\<close>

type_synonym cache = "((string \<times> string \<times> string) \<times> envelope) list"

definition maxsize :: nat where
  "maxsize = 100"

definition find_attraction_info ::
  "network \<Rightarrow> string \<Rightarrow> string \<Rightarrow> string \<Rightarrow> cache \<times> world
   \<Rightarrow> (exn + envelope) \<times> cache \<times> world" where
  "find_attraction_info net identifier identifier_type api_key s =
     (let key = (identifier, identifier_type, api_key); c = fst s; w = snd s
      in case map_of c key of
           Some result \<Rightarrow> (Inr result, (key, result) # filter (\<lambda>kv. fst kv \<noteq> key) c, w)
         | None \<Rightarrow>
             (case find_attraction_info_wrapped net identifier identifier_type api_key w of
                (Inl e, w1) \<Rightarrow> (Inl e, c, w1)
              | (Inr result, w1) \<Rightarrow>
                  (Inr result,
                   (key, result) # (if maxsize \<le> length c then butlast c else c), w1)))"


section \<open>Function 2: \<^verbatim>\<open>get_performer_events_1\<close>\<close>

text \<open>The chains of \<^verbatim>\<open>get\<close> that the two event pipelines share.\<close>

definition nested :: "json \<Rightarrow> string \<Rightarrow> string \<Rightarrow> string \<Rightarrow> exn + json" where
  \<comment> \<open>\<^verbatim>\<open>event.get(k1, {}).get(k2, {}).get(k3)\<close>\<close>
  "nested event k1 k2 k3 =
     and_then (and_then (get event k1 (JObj [])) (\<lambda>a. get a k2 (JObj [])))
       (\<lambda>b. get b k3 JNull)"

definition venue :: "json \<Rightarrow> exn + json" where
  \<comment> \<open>\<^verbatim>\<open>event.get('_embedded', {}).get('venues', [{}])[0]\<close>\<close>
  "venue event =
     and_then (and_then (get event ''_embedded'' (JObj []))
                 (\<lambda>embedded. get embedded ''venues'' (JList [JObj []]))) first"

definition venue_nested :: "json \<Rightarrow> string \<Rightarrow> string \<Rightarrow> exn + json" where
  \<comment> \<open>\<^verbatim>\<open>event.get('_embedded', {}).get('venues', [{}])[0].get(k1, {}).get(k2)\<close>\<close>
  "venue_nested event k1 k2 =
     and_then (and_then (venue event) (\<lambda>v. get v k1 (JObj []))) (\<lambda>a. get a k2 JNull)"

definition presale :: "json \<Rightarrow> exn + json" where
  \<comment> \<open>\<^verbatim>\<open>event.get('sales', {}).get('presale', [{}])[0]\<close>\<close>
  "presale event =
     and_then (and_then (get event ''sales'' (JObj []))
                 (\<lambda>sales. get sales ''presale'' (JList [JObj []]))) first"

text \<open>The first statements of \<^verbatim>\<open>extract_event_info\<close>: the two prices and their average.\<close>

definition price_range :: "json \<Rightarrow> exn + json \<times> json" where
  "price_range event =
     and_then (contains event ''priceRanges'') (\<lambda>has_prices.
       if has_prices then
         and_then (and_then (item event ''priceRanges'') first) (\<lambda>prices.
         and_then (get prices ''min'' JNull) (\<lambda>min_price.
         and_then (get prices ''max'' JNull) (\<lambda>max_price.
         Inr (min_price, max_price))))
       else Inr (JNull, JNull))"

definition average :: "json \<Rightarrow> json \<Rightarrow> exn + json" where
  "average min_price max_price =
     (if truthy min_price \<and> truthy max_price
      then and_then (add min_price max_price) halve
      else Inr JNull)"

definition extract_event_info :: "json \<Rightarrow> exn + row" where
  "extract_event_info event =
     and_then (price_range event) (\<lambda>prices.
     and_then (average (fst prices) (snd prices)) (\<lambda>avg_price.
     and_then (and_then (venue event) (\<lambda>v. get v ''id'' (JStr ''N/A''))) (\<lambda>venue_id.
     and_then (get event ''name'' JNull) (\<lambda>event_name.
     and_then (get event ''id'' JNull) (\<lambda>event_id.
     and_then (nested event ''dates'' ''start'' ''localDate'') (\<lambda>start_date.
     and_then (nested event ''dates'' ''start'' ''localTime'') (\<lambda>start_time.
     and_then (and_then (venue event) (\<lambda>v. get v ''name'' JNull)) (\<lambda>venue_name.
     and_then (venue_nested event ''city'' ''name'') (\<lambda>city.
     and_then (venue_nested event ''country'' ''name'') (\<lambda>country.
     and_then (nested event ''sales'' ''public'' ''startDateTime'') (\<lambda>publicsale_start.
     and_then (nested event ''sales'' ''public'' ''endDateTime'') (\<lambda>publicsale_end.
     and_then (and_then (presale event) (\<lambda>p. get p ''startDateTime'' JNull)) (\<lambda>presale_start.
     and_then (and_then (presale event) (\<lambda>p. get p ''endDateTime'' JNull)) (\<lambda>presale_end.
     Inr [(''Event Name'', event_name),
          (''Event ID'', event_id),
          (''Start Date'', start_date),
          (''Start Time'', start_time),
          (''Venue'', venue_name),
          (''Venue ID'', venue_id),
          (''City'', city),
          (''Country'', country),
          (''publicsale_start'', publicsale_start),
          (''publicsale_end'', publicsale_end),
          (''presale_start'', presale_start),
          (''presale_end'', presale_end),
          (''Min Price'', fst prices),
          (''Max Price'', snd prices),
          (''Average Price'', avg_price)]))))))))))))))"

text \<open>
  \<^verbatim>\<open>response.json().get('_embedded', {}).get('events', [])\<close>, in both event pipelines.
\<close>

definition events_of :: "response \<Rightarrow> exn + json" where
  "events_of response =
     and_then (and_then (payload response) (\<lambda>data. get data ''_embedded'' (JObj [])))
       (\<lambda>embedded. get embedded ''events'' (JList []))"

text \<open>The \<^verbatim>\<open>try\<close> block from \<^verbatim>\<open>raise_for_status\<close> to its \<^verbatim>\<open>return\<close>.\<close>

definition performer_events :: "response \<Rightarrow> exn + envelope" where
  "performer_events response =
     and_then (raise_for_status response) (\<lambda>u.
     and_then (events_of response) (\<lambda>events_data.
       if \<not> truthy events_data
       then Inr ([], Some ''No events found for this performer.'')
       else and_then (and_then (iter events_data) (for_each extract_event_info))
              (\<lambda>events_info. Inr (events_info, None))))"

text \<open>The two \<^verbatim>\<open>except\<close> clauses.\<close>

definition performer_except :: "exn \<Rightarrow> envelope" where
  "performer_except e =
     (if is_HTTPError e then ([], Some (''HTTP error occurred: '' @ str_exn e))
      else ([], Some (''Other error occurred: '' @ str_exn e)))"

fun performer_attempts ::
  "network \<Rightarrow> request \<Rightarrow> int \<Rightarrow> nat list \<Rightarrow> int \<Rightarrow> world \<Rightarrow> envelope \<times> world" where
  "performer_attempts net rq max_retries [] retry_delay w =
     (([], Some ''Failed to fetch events after retries''), w)"
| "performer_attempts net rq max_retries (attempt # rest) retry_delay w =
     (case send net rq w of
        (Raises e, w1) \<Rightarrow> (performer_except e, w1)
      | (Returns response, w1) \<Rightarrow>
          if status_code response = 429 then
            if int attempt < max_retries - 1
            then performer_attempts net rq max_retries rest (retry_delay * 2)
                   (sleep retry_delay w1)
            else (([], Some ''Rate limit exceeded, try again later.''), w1)
          else (case performer_events response of
                  Inl e \<Rightarrow> (performer_except e, w1)
                | Inr result \<Rightarrow> (result, w1)))"

definition get_performer_events_1 ::
  "network \<Rightarrow> string \<Rightarrow> string \<Rightarrow> int \<Rightarrow> world \<Rightarrow> envelope \<times> world" where
  "get_performer_events_1 net attraction_id api_key max_retries w =
     (let events_url = ''https://app.ticketmaster.com/discovery/v2/events.json?apikey=''
                         @ api_key @ ''&attractionId='' @ attraction_id;
          retry_delay = 1
      in performer_attempts net (Get events_url []) max_retries [0..<nat max_retries]
           retry_delay w)"

section \<open>Function 3: \<^verbatim>\<open>fetch_filtered_events\<close>\<close>

text \<open>
  What the \<^verbatim>\<open>except\<close> clauses decide, given the \<^verbatim>\<open>response\<close> variable as it stands when
  the exception arrives: go on with the next attempt (after the sleep), or leave.
\<close>

datatype handled = Retry | Stop loop_exit

definition filtered_except :: "int \<Rightarrow> nat \<Rightarrow> response option \<Rightarrow> exn \<Rightarrow> handled" where
  "filtered_except max_retries attempt response e =
     (if is_HTTPError e then
        if response_truthy response \<and> map_option status_code response = Some 429
        then Retry
        else Stop (Returned ([], Some (''HTTP error occurred: '' @ str_exn e)))
      else if is_RequestException e then
        if int attempt = max_retries - 1
        then Stop (Returned ([], Some (''Failed to fetch data after '' @ str_int max_retries
                      @ '' attempts. Error: '' @ str_exn e)))
        else Retry
      else Stop (Raised e))"

fun filtered_attempts ::
  "network \<Rightarrow> request \<Rightarrow> int \<Rightarrow> nat list \<Rightarrow> int \<Rightarrow> response option \<Rightarrow> world
   \<Rightarrow> loop_exit \<times> world" where
  "filtered_attempts net rq max_retries [] retry_delay response w = (Completed response, w)"
| "filtered_attempts net rq max_retries (attempt # rest) retry_delay response w =
     (case send net rq w of
        (Raises e, w1) \<Rightarrow>
          (case filtered_except max_retries attempt response e of
             Retry \<Rightarrow> filtered_attempts net rq max_retries rest (retry_delay * 2) response
                        (sleep retry_delay w1)
           | Stop x \<Rightarrow> (x, w1))
      | (Returns r, w1) \<Rightarrow>
          (case raise_for_status r of
             Inr u \<Rightarrow> (Completed (Some r), w1)
           | Inl e \<Rightarrow>
               (case filtered_except max_retries attempt (Some r) e of
                  Retry \<Rightarrow> filtered_attempts net rq max_retries rest (retry_delay * 2) (Some r)
                             (sleep retry_delay w1)
                | Stop x \<Rightarrow> (x, w1))))"

definition filtered_event_info :: "json \<Rightarrow> exn + row" where
  "filtered_event_info event =
     and_then (get event ''id'' JNull) (\<lambda>event_id.
     and_then (and_then (venue event) (\<lambda>v. get v ''id'' JNull)) (\<lambda>venue_id.
     and_then (nested event ''dates'' ''start'' ''dateTime'') (\<lambda>start_datetime.
     and_then (nested event ''dates'' ''end'' ''dateTime'') (\<lambda>end_datetime.
     and_then (venue_nested event ''city'' ''name'') (\<lambda>city.
     and_then (venue_nested event ''state'' ''stateCode'') (\<lambda>state_code.
     and_then (venue_nested event ''country'' ''countryCode'') (\<lambda>country_code.
     and_then (nested event ''sales'' ''public'' ''startDateTime'') (\<lambda>onsale_start.
     and_then (nested event ''sales'' ''public'' ''endDateTime'') (\<lambda>onsale_end.
     and_then (nested event ''dates'' ''start'' ''localDate'') (\<lambda>local_start.
     and_then (nested event ''dates'' ''end'' ''localDate'') (\<lambda>local_end.
     and_then (and_then (get event ''dates'' (JObj [])) (\<lambda>dates. get dates ''timezone'' JNull))
       (\<lambda>timezone.
     Inr [(''ID'', event_id),
          (''Venue ID'', venue_id),
          (''Start DateTime'', start_datetime),
          (''End DateTime'', end_datetime),
          (''City'', city),
          (''State Code'', state_code),
          (''Country Code'', country_code),
          (''Onsale Start DateTime'', onsale_start),
          (''Onsale End DateTime'', onsale_end),
          (''Local Start DateTime'', local_start),
          (''Local End DateTime'', local_end),
          (''Start End DateTime'', timezone)]))))))))))))"

definition filtered_events :: "response \<Rightarrow> exn + envelope" where
  "filtered_events response =
     and_then (events_of response) (\<lambda>events_data.
       if \<not> truthy events_data
       then Inr ([], Some ''No events found for the given criteria.'')
       else and_then (and_then (iter events_data) (for_each filtered_event_info))
              (\<lambda>events_info. Inr (events_info, None)))"

definition fetch_filtered_events ::
  "network \<Rightarrow> string \<Rightarrow> string option \<Rightarrow> string option \<Rightarrow> string option \<Rightarrow> string option
   \<Rightarrow> string option \<Rightarrow> world \<Rightarrow> (exn + envelope) \<times> world" where
  "fetch_filtered_events net api_key start_date end_date city state_code country_code w =
     (let base_url = ''https://app.ticketmaster.com/discovery/v2/events.json'';
          params = [(''apikey'', Some api_key),
                    (''startDateTime'', start_date),
                    (''endDateTime'', end_date),
                    (''city'', city),
                    (''stateCode'', state_code),
                    (''countryCode'', country_code)];
          max_retries = 5;
          retry_delay = 1
      in case filtered_attempts net (Get base_url params) max_retries [0..<nat max_retries]
                retry_delay None w of
           (Returned result, w1) \<Rightarrow> (Inr result, w1)
         | (Raised e, w1) \<Rightarrow> (Inl e, w1)
         | (Completed None, w1) \<Rightarrow>
             (Inr ([], Some ''No successful response received from the API.''), w1)
         | (Completed (Some response), w1) \<Rightarrow>
             if status_code response \<noteq> 200
             then (Inr ([], Some ''No successful response received from the API.''), w1)
             else (filtered_events response, w1))"


section \<open>Test doubles\<close>

text \<open>
  The responses the tests of the repository mock: a rate-limited reply, a successful reply
  with a JSON body, and a network that answers the requests of a process from a list and
  refuses every later connection.
\<close>

definition too_many_requests :: "string \<Rightarrow> response" where
  "too_many_requests u =
     \<lparr>status_code = 429, reason = ''Too Many Requests'', url = u,
      payload = Inl (JSONDecodeError ''Expecting value: line 1 column 1 (char 0)'')\<rparr>"

definition ok_with :: "string \<Rightarrow> json \<Rightarrow> response" where
  "ok_with u body = \<lparr>status_code = 200, reason = ''OK'', url = u, payload = Inr body\<rparr>"

definition answers :: "response list \<Rightarrow> network" where
  "answers rs n rq =
     (if n < length rs then Returns (rs ! n) else Raises (TransportError ''Connection refused''))"

section \<open>The states a process reaches\<close>

text \<open>
  A process starts with an empty cache, no request sent and no sleep taken, and
  calls the three operations in any order with any arguments.
\<close>

inductive reachable :: "network \<Rightarrow> cache \<times> world \<Rightarrow> bool" for net :: network where
  started: "reachable net ([], \<lparr>requests = 0, sleeps = []\<rparr>)"
| found: "reachable net s \<Longrightarrow>
    reachable net (snd (find_attraction_info net identifier identifier_type api_key s))"
| performed: "reachable net (c, w) \<Longrightarrow>
    reachable net (c, snd (get_performer_events_1 net attraction_id api_key max_retries w))"
| fetched: "reachable net (c, w) \<Longrightarrow>
    reachable net (c, snd (fetch_filtered_events net api_key start_date end_date city
                             state_code country_code w))"

text \<open>Every cached result is one the function returned for its key, in some world.\<close>

definition cache_sound :: "network \<Rightarrow> cache \<Rightarrow> bool" where
  "cache_sound net c =
     list_all (\<lambda>kv. \<exists>w. fst (find_attraction_info_wrapped net (fst (fst kv))
                              (fst (snd (fst kv))) (snd (snd (fst kv))) w) = Inr (snd kv)) c"

section \<open>Envelopes\<close>



section \<open>Name search\<close>

text \<open>
  The rule of the name search in the words of its description: every word of the
  lower-cased query is a word of the lower-cased name.
\<close>

definition token_match :: "string \<Rightarrow> string \<Rightarrow> bool" where
  "token_match query candidate = (set (split (lower query)) \<subseteq> set (split (lower candidate)))"

text \<open>
  A candidate is named when it is an object whose \<^verbatim>\<open>name\<close> is a string; it flattens when
  \<^verbatim>\<open>extract_attraction_info\<close> returns its row (it is an object whose \<^verbatim>\<open>upcomingEvents\<close>,
  when present, is an object).
\<close>

definition named :: "json \<Rightarrow> bool" where
  "named c = (case item c ''name'' of Inr (JStr n) \<Rightarrow> True | _ \<Rightarrow> False)"

definition candidate_name :: "json \<Rightarrow> string" where
  "candidate_name c = (case item c ''name'' of Inr (JStr n) \<Rightarrow> n | _ \<Rightarrow> [])"

definition flattens :: "json \<Rightarrow> bool" where
  "flattens c = (case extract_attraction_info c of Inr r \<Rightarrow> True | Inl e \<Rightarrow> False)"

definition attraction_row :: "json \<Rightarrow> row" where
  "attraction_row c = (case extract_attraction_info c of Inr r \<Rightarrow> r | Inl e \<Rightarrow> [])"

definition matches :: "string \<Rightarrow> json \<Rightarrow> bool" where
  "matches query c = token_match query (candidate_name c)"




section \<open>The cache\<close>

lemma cache_sound_Nil: "cache_sound net []"
  by (simp add: cache_sound_def)

lemma cache_sound_lookup:
  assumes "cache_sound net c" and "map_of c (i, t, k) = Some v"
  shows "\<exists>w. fst (find_attraction_info_wrapped net i t k w) = Inr v"
proof -
  from assms(2) have "((i, t, k), v) \<in> set c" by (rule map_of_SomeD)
  with assms(1) have "\<exists>w. fst (find_attraction_info_wrapped net (fst (fst ((i, t, k), v)))
      (fst (snd (fst ((i, t, k), v)))) (snd (snd (fst ((i, t, k), v)))) w) = Inr (snd ((i, t, k), v))"
    unfolding cache_sound_def list_all_iff by blast
  then show ?thesis by simp
qed

lemma cache_sound_subset:
  assumes "cache_sound net c" and "set c' \<subseteq> set c"
  shows "cache_sound net c'"
  using assms by (auto simp: cache_sound_def list_all_iff)

lemma cache_sound_Cons:
  assumes "fst (find_attraction_info_wrapped net i t k w) = Inr v" and "cache_sound net c"
  shows "cache_sound net (((i, t, k), v) # c)"
  using assms by (auto simp: cache_sound_def)

text \<open>The three ways a call of the decorated function goes.\<close>

lemma find_cached:
  assumes "map_of (fst s) (i, t, k) = Some v"
  shows "find_attraction_info net i t k s =
    (Inr v, ((i, t, k), v) # filter (\<lambda>kv. fst kv \<noteq> (i, t, k)) (fst s), snd s)"
  using assms by (simp add: find_attraction_info_def Let_def)

lemma find_raised:
  assumes "map_of (fst s) (i, t, k) = None"
    and "find_attraction_info_wrapped net i t k (snd s) = (Inl e, w1)"
  shows "find_attraction_info net i t k s = (Inl e, fst s, w1)"
  using assms by (simp add: find_attraction_info_def Let_def)

lemma find_returned:
  assumes "map_of (fst s) (i, t, k) = None"
    and "find_attraction_info_wrapped net i t k (snd s) = (Inr v, w1)"
  shows "find_attraction_info net i t k s =
    (Inr v, ((i, t, k), v) # (if maxsize \<le> length (fst s) then butlast (fst s) else fst s), w1)"
  using assms by (simp add: find_attraction_info_def Let_def)

lemma cache_sound_find:
  assumes "cache_sound net (fst s)"
  shows "cache_sound net (fst (snd (find_attraction_info net i t k s)))"
proof (cases "map_of (fst s) (i, t, k)")
  case (Some v)
  from cache_sound_lookup [OF assms Some] obtain w
    where w: "fst (find_attraction_info_wrapped net i t k w) = Inr v" by blast
  have "cache_sound net (filter (\<lambda>kv. fst kv \<noteq> (i, t, k)) (fst s))"
    by (rule cache_sound_subset [OF assms]) auto
  with w have "cache_sound net (((i, t, k), v) # filter (\<lambda>kv. fst kv \<noteq> (i, t, k)) (fst s))"
    by (rule cache_sound_Cons)
  then show ?thesis by (simp add: find_cached [OF Some])
next
  case None
  obtain res w1 where r: "find_attraction_info_wrapped net i t k (snd s) = (res, w1)"
    by (cases "find_attraction_info_wrapped net i t k (snd s)")
  show ?thesis
  proof (cases res)
    case (Inl e)
    with r have "find_attraction_info_wrapped net i t k (snd s) = (Inl e, w1)" by simp
    from find_raised [OF None this] assms show ?thesis by simp
  next
    case (Inr v)
    with r have w: "fst (find_attraction_info_wrapped net i t k (snd s)) = Inr v" by simp
    have "cache_sound net (if maxsize \<le> length (fst s) then butlast (fst s) else fst s)"
      by (rule cache_sound_subset [OF assms]) (auto dest: in_set_butlastD)
    with w have "cache_sound net
        (((i, t, k), v) # (if maxsize \<le> length (fst s) then butlast (fst s) else fst s))"
      by (rule cache_sound_Cons)
    moreover from r Inr have "find_attraction_info_wrapped net i t k (snd s) = (Inr v, w1)"
      by simp
    note find_returned [OF None this]
    ultimately show ?thesis by simp
  qed
qed

lemma reachable_cache_sound: "reachable net s \<Longrightarrow> cache_sound net (fst s)"
proof (induction rule: reachable.induct)
  case started
  show ?case by (simp add: cache_sound_Nil)
next
  case (found s i t k)
  then show ?case by (simp add: cache_sound_find)
next
  case (performed c w attraction_id api_key max_retries)
  then show ?case by simp
next
  case (fetched c w api_key start_date end_date city state_code country_code)
  then show ?case by simp
qed

section \<open>The guards of \<^verbatim>\<open>find_attraction_info\<close>\<close>

lemma wrapped_invalid_type:
  assumes "identifier_type \<noteq> ''name''" and "identifier_type \<noteq> ''id''"
  shows "find_attraction_info_wrapped net identifier identifier_type api_key w =
    (Inl (ValueError ''Invalid identifier type. Must be 'name' or 'id'.''), w)"
  using assms by (simp add: find_attraction_info_wrapped_def)

lemma wrapped_empty_identifier:
  assumes "identifier_type = ''name'' \<or> identifier_type = ''id''"
  shows "find_attraction_info_wrapped net [] identifier_type api_key w =
    (Inr ([], Some ''Identifier cannot be empty.''), w)"
  using assms by (auto simp: find_attraction_info_wrapped_def)

text \<open>
  C7. In every state a process reaches, and whatever the network would answer, a call of
  \<^verbatim>\<open>find_attraction_info\<close> whose \<^verbatim>\<open>identifier_type\<close> is neither \<^verbatim>\<open>'name'\<close> nor \<^verbatim>\<open>'id'\<close>
  raises \<^verbatim>\<open>ValueError\<close> and leaves the cache and the world as they were: no request is
  sent and nothing is slept.
\<close>

theorem invalid_identifier_type_raises:
  assumes "reachable net (c, w)"
    and "identifier_type \<noteq> ''name''" and "identifier_type \<noteq> ''id''"
  shows "find_attraction_info net identifier identifier_type api_key (c, w) =
    (Inl (ValueError ''Invalid identifier type. Must be 'name' or 'id'.''), c, w)"
proof -
  have sound: "cache_sound net c"
    using reachable_cache_sound [OF assms(1)] by simp
  have miss: "map_of c (identifier, identifier_type, api_key) = None"
  proof (cases "map_of c (identifier, identifier_type, api_key)")
    case None
    then show ?thesis .
  next
    case (Some v)
    from cache_sound_lookup [OF sound Some] obtain w'
      where "fst (find_attraction_info_wrapped net identifier identifier_type api_key w') = Inr v"
      by blast
    with wrapped_invalid_type [OF assms(2,3)] show ?thesis by simp
  qed
  have "map_of (fst (c, w)) (identifier, identifier_type, api_key) = None"
    using miss by simp
  moreover have "find_attraction_info_wrapped net identifier identifier_type api_key (snd (c, w)) =
      (Inl (ValueError ''Invalid identifier type. Must be 'name' or 'id'.''), w)"
    using wrapped_invalid_type [OF assms(2,3)] by simp
  ultimately show ?thesis
    using find_raised by fastforce
qed

theorem invalid_identifier_type_raises_witness:
  "find_attraction_info (\<lambda>n rq. Raises (TransportError ''unreachable''))
     ''Taylor Swift'' ''artist'' ''key'' ([], \<lparr>requests = 0, sleeps = []\<rparr>) =
    (Inl (ValueError ''Invalid identifier type. Must be 'name' or 'id'.''),
     [], \<lparr>requests = 0, sleeps = []\<rparr>)"
proof -
  have t1: "''artist'' \<noteq> ''name''" by simp
  have t2: "''artist'' \<noteq> ''id''" by simp
  show ?thesis
    by (rule invalid_identifier_type_raises [OF reachable.started t1 t2])
qed

text \<open>
  C8. In every state a process reaches, a call of \<^verbatim>\<open>find_attraction_info\<close> with the empty
  identifier and a valid \<^verbatim>\<open>identifier_type\<close> returns the empty table with the error
  \<^verbatim>\<open>Identifier cannot be empty.\<close>; it raises nothing and leaves the world as it was, so
  no request is sent.
\<close>

theorem empty_identifier_envelope:
  assumes "reachable net (c, w)"
    and "identifier_type = ''name'' \<or> identifier_type = ''id''"
  shows "fst (find_attraction_info net [] identifier_type api_key (c, w)) =
           Inr ([], Some ''Identifier cannot be empty.'')
         \<and> snd (snd (find_attraction_info net [] identifier_type api_key (c, w))) = w"
proof (cases "map_of c ([], identifier_type, api_key)")
  case None
  then have "map_of (fst (c, w)) ([], identifier_type, api_key) = None" by simp
  moreover have "find_attraction_info_wrapped net [] identifier_type api_key (snd (c, w)) =
      (Inr ([], Some ''Identifier cannot be empty.''), w)"
    using wrapped_empty_identifier [OF assms(2)] by simp
  ultimately show ?thesis
    by (simp add: find_returned)
next
  case (Some v)
  have "cache_sound net c"
    using reachable_cache_sound [OF assms(1)] by simp
  from cache_sound_lookup [OF this Some] obtain w'
    where "fst (find_attraction_info_wrapped net [] identifier_type api_key w') = Inr v"
    by blast
  then have v: "v = ([], Some ''Identifier cannot be empty.'')"
    using wrapped_empty_identifier [OF assms(2)] by simp
  from Some have "map_of (fst (c, w)) ([], identifier_type, api_key) = Some v" by simp
  then show ?thesis
    using v by (simp add: find_cached)
qed

theorem empty_identifier_envelope_witness:
  "fst (find_attraction_info (\<lambda>n rq. Raises (TransportError ''unreachable'')) [] ''name'' ''key''
          ([], \<lparr>requests = 0, sleeps = []\<rparr>)) = Inr ([], Some ''Identifier cannot be empty.'')
   \<and> snd (snd (find_attraction_info (\<lambda>n rq. Raises (TransportError ''unreachable'')) [] ''name''
          ''key'' ([], \<lparr>requests = 0, sleeps = []\<rparr>))) = \<lparr>requests = 0, sleeps = []\<rparr>"
proof -
  have t: "''name'' = ''name'' \<or> ''name'' = ''id''" by simp
  show ?thesis
    by (rule empty_identifier_envelope [OF reachable.started t])
qed


text \<open>
  C9. When a call of \<^verbatim>\<open>find_attraction_info\<close> has returned an envelope, the next call
  with the same three arguments returns the same envelope (the table and the error are
  equal values) and leaves the world as the first call left it: it sends no request,
  whatever the network would answer now. This holds for every returned envelope, so also
  for the successful ones the claim is about.
\<close>

theorem repeated_call_cached:
  assumes "find_attraction_info net identifier identifier_type api_key s = (Inr result, c1, w1)"
  shows "fst (find_attraction_info net' identifier identifier_type api_key (c1, w1)) = Inr result
         \<and> snd (snd (find_attraction_info net' identifier identifier_type api_key (c1, w1))) = w1"
proof -
  have "map_of c1 (identifier, identifier_type, api_key) = Some result"
  proof (cases "map_of (fst s) (identifier, identifier_type, api_key)")
    case (Some v)
    from find_cached [OF Some, of net] assms show ?thesis by auto
  next
    case None
    obtain res w'
      where r: "find_attraction_info_wrapped net identifier identifier_type api_key (snd s) = (res, w')"
      by (cases "find_attraction_info_wrapped net identifier identifier_type api_key (snd s)")
    show ?thesis
    proof (cases res)
      case (Inl e)
      with r find_raised [OF None, of net e w'] assms show ?thesis by simp
    next
      case (Inr v)
      with r find_returned [OF None, of net v w'] assms show ?thesis by auto
    qed
  qed
  then have "map_of (fst (c1, w1)) (identifier, identifier_type, api_key) = Some result"
    by simp
  then show ?thesis by (simp add: find_cached)
qed

theorem repeated_call_cached_witness:
  "fst (find_attraction_info (\<lambda>n rq. Raises (TransportError ''unreachable''))
          ''Test Attraction'' ''name'' ''dummy_api_key''
          ([((''Test Attraction'', ''name'', ''dummy_api_key''),
             [[(''name'', JStr ''Test Attraction''), (''ID'', JStr ''123''),
               (''Ticketmaster Upcoming Events'', JInt 0), (''Total Upcoming Events'', JInt 0)]],
             None)],
           \<lparr>requests = 1, sleeps = []\<rparr>))
     = Inr ([[(''name'', JStr ''Test Attraction''), (''ID'', JStr ''123''),
              (''Ticketmaster Upcoming Events'', JInt 0), (''Total Upcoming Events'', JInt 0)]],
            None)
   \<and> snd (snd (find_attraction_info (\<lambda>n rq. Raises (TransportError ''unreachable''))
          ''Test Attraction'' ''name'' ''dummy_api_key''
          ([((''Test Attraction'', ''name'', ''dummy_api_key''),
             [[(''name'', JStr ''Test Attraction''), (''ID'', JStr ''123''),
               (''Ticketmaster Upcoming Events'', JInt 0), (''Total Upcoming Events'', JInt 0)]],
             None)],
           \<lparr>requests = 1, sleeps = []\<rparr>)))
     = \<lparr>requests = 1, sleeps = []\<rparr>"
proof -
  have first_call:
    "find_attraction_info
       (answers [ok_with ''https://app.ticketmaster.com/discovery/v2/attractions.json?keyword=Test%20Attraction&apikey=dummy_api_key''
          (JObj [(''_embedded'', JObj [(''attractions'',
             JList [JObj [(''name'', JStr ''Test Attraction''), (''id'', JStr ''123'')]])])])])
       ''Test Attraction'' ''name'' ''dummy_api_key'' ([], \<lparr>requests = 0, sleeps = []\<rparr>)
     = (Inr ([[(''name'', JStr ''Test Attraction''), (''ID'', JStr ''123''),
               (''Ticketmaster Upcoming Events'', JInt 0), (''Total Upcoming Events'', JInt 0)]],
             None),
        [((''Test Attraction'', ''name'', ''dummy_api_key''),
          [[(''name'', JStr ''Test Attraction''), (''ID'', JStr ''123''),
            (''Ticketmaster Upcoming Events'', JInt 0), (''Total Upcoming Events'', JInt 0)]],
          None)],
        \<lparr>requests = 1, sleeps = []\<rparr>)"
    by code_simp
  show ?thesis
    by (rule repeated_call_cached [OF first_call])
qed

section \<open>Rate limiting\<close>

lemma range_5: "[0..<5] = [0, 1, 2, 3, 4::nat]"
  by code_simp

lemma raise_for_status_429:
  "status_code r = 429 \<Longrightarrow> raise_for_status r =
     Inl (HTTPError (''429 Client Error: '' @ reason r @ '' for url: '' @ url r))"
  by (simp add: raise_for_status_def) code_simp

lemma raise_for_status_200: "status_code r = 200 \<Longrightarrow> raise_for_status r = Inr ()"
  by (simp add: raise_for_status_def)

text \<open>
  After one 429 and one 200, \<^verbatim>\<open>find_attraction_info\<close> has sent two requests, slept once
  (one second) and goes on to flatten the second response.
\<close>

lemma find_retries_once:
  assumes "identifier_type = ''name'' \<or> identifier_type = ''id''" and "identifier \<noteq> []"
    and "net (requests w) (Get (attraction_link identifier identifier_type api_key) []) = Returns r1"
    and "status_code r1 = 429"
    and "net (Suc (requests w)) (Get (attraction_link identifier identifier_type api_key) [])
           = Returns r2"
    and "status_code r2 = 200"
  shows "find_attraction_info_wrapped net identifier identifier_type api_key w =
    (process_attractions identifier identifier_type r2,
     w\<lparr>requests := requests w + 2, sleeps := sleeps w @ [1]\<rparr>)"
  using assms
  by (auto simp: find_attraction_info_wrapped_def range_5 attraction_attempt_def send_def
      sleep_def raise_for_status_200)

text \<open>So does \<^verbatim>\<open>get_performer_events_1\<close>, when it is allowed two attempts at least.\<close>

lemma performer_retries_once:
  assumes "2 \<le> max_retries"
    and "net (requests w) (Get (''https://app.ticketmaster.com/discovery/v2/events.json?apikey=''
                         @ api_key @ ''&attractionId='' @ attraction_id) []) = Returns r1"
    and "status_code r1 = 429"
    and "net (Suc (requests w))
           (Get (''https://app.ticketmaster.com/discovery/v2/events.json?apikey=''
                         @ api_key @ ''&attractionId='' @ attraction_id) []) = Returns r2"
    and "status_code r2 = 200"
  shows "get_performer_events_1 net attraction_id api_key max_retries w =
    ((case performer_events r2 of Inl e \<Rightarrow> performer_except e | Inr result \<Rightarrow> result),
     w\<lparr>requests := requests w + 2, sleeps := sleeps w @ [1]\<rparr>)"
proof -
  from assms(1) have "[0..<nat max_retries] = 0 # Suc 0 # [Suc (Suc 0)..<nat max_retries]"
    by (simp add: upt_conv_Cons)
  with assms show ?thesis
    by (auto simp: get_performer_events_1_def send_def sleep_def split: sum.splits)
qed

text \<open>
  \<^verbatim>\<open>fetch_filtered_events\<close> does not: a 429 makes \<^verbatim>\<open>raise_for_status\<close> raise, and in the
  handler \<^verbatim>\<open>response and response.status_code == 429\<close> is false, a response with a status
  from 400 on being false. The first 429 ends the call with the HTTP error.
\<close>

lemma fetch_rate_limited_no_retry:
  assumes "net (requests w) (Get ''https://app.ticketmaster.com/discovery/v2/events.json''
             [(''apikey'', Some api_key), (''startDateTime'', start_date),
              (''endDateTime'', end_date), (''city'', city), (''stateCode'', state_code),
              (''countryCode'', country_code)]) = Returns r"
    and "status_code r = 429"
  shows "fetch_filtered_events net api_key start_date end_date city state_code country_code w =
    (Inr ([], Some (''HTTP error occurred: 429 Client Error: '' @ reason r @ '' for url: ''
                      @ url r)),
     w\<lparr>requests := Suc (requests w)\<rparr>)"
  using assms
  by (simp add: fetch_filtered_events_def range_5 send_def raise_for_status_429
      filtered_except_def ok_def)

text \<open>
  C1. The claim asks that after one 429 and one successful reply each of the three
  operations has retried once and returns the table of the second reply with no error.
  \<^verbatim>\<open>fetch_filtered_events\<close> returns instead, after one request and no sleep, the empty
  table and the text of the HTTP error.
\<close>

theorem fetch_filtered_events_gives_up_on_429:
  "fetch_filtered_events
     (answers [too_many_requests ''https://app.ticketmaster.com/discovery/v2/events.json?apikey=key&city=New+York'',
               ok_with ''https://app.ticketmaster.com/discovery/v2/events.json?apikey=key&city=New+York''
                 (JObj [(''_embedded'', JObj [(''events'',
                    JList [JObj [(''id'', JStr ''Z698xZbpZ171_uE'')]])])])])
     ''key'' None None (Some ''New York'') None None \<lparr>requests = 0, sleeps = []\<rparr>
   = (Inr ([], Some ''HTTP error occurred: 429 Client Error: Too Many Requests for url: https://app.ticketmaster.com/discovery/v2/events.json?apikey=key&city=New+York''),
      \<lparr>requests = 1, sleeps = []\<rparr>)"
  by code_simp

section \<open>Exceptions that reach the caller\<close>

text \<open>
  C2. The claim asks that no body of a successful response makes an operation raise. A
  name search whose only candidate has no \<^verbatim>\<open>name\<close> raises \<^verbatim>\<open>KeyError\<close> to the caller:
  \<^verbatim>\<open>attraction['name']\<close> is read before \<^verbatim>\<open>extract_attraction_info\<close> would put \<^verbatim>\<open>'N/A'\<close>.
\<close>

theorem find_attraction_info_raises_on_nameless_candidate:
  "find_attraction_info
     (answers [ok_with ''https://app.ticketmaster.com/discovery/v2/attractions.json?keyword=Taylor%20Swift&apikey=key''
                 (JObj [(''_embedded'', JObj [(''attractions'',
                    JList [JObj [(''id'', JStr ''K8vZ9175Tr0'')]])])])])
     ''Taylor Swift'' ''name'' ''key'' ([], \<lparr>requests = 0, sleeps = []\<rparr>)
   = (Inl (KeyError (quoted ''name'')), [], \<lparr>requests = 1, sleeps = []\<rparr>)"
  by code_simp

text \<open>
  C3. The claim asks that no shape of an event makes its flattening fail. An event whose
  \<^verbatim>\<open>priceRanges\<close> is the empty list makes \<^verbatim>\<open>extract_event_info\<close> raise \<^verbatim>\<open>IndexError\<close>, and
  \<^verbatim>\<open>get_performer_events_1\<close> then returns no row at all, also for the events that flatten.
\<close>

theorem extract_event_info_fails_on_empty_price_ranges:
  "extract_event_info
     (JObj [(''name'', JStr ''Pinkpop 2024 (Sunday)''), (''priceRanges'', JList [])])
     = Inl (IndexError ''list index out of range'')
   \<and> get_performer_events_1
       (answers [ok_with ''https://app.ticketmaster.com/discovery/v2/events.json?apikey=key&attractionId=K8vZ9178pt7''
          (JObj [(''_embedded'', JObj [(''events'', JList
             [JObj [(''name'', JStr ''Pinkpop 2024 (Saturday)'')],
              JObj [(''name'', JStr ''Pinkpop 2024 (Sunday)''), (''priceRanges'', JList [])]])])])])
       ''K8vZ9178pt7'' ''key'' 5 \<lparr>requests = 0, sleeps = []\<rparr>
     = (([], Some ''Other error occurred: list index out of range''),
        \<lparr>requests = 1, sleeps = []\<rparr>)"
  by code_simp


section \<open>Errors and empty tables\<close>

lemma and_then_Inr_iff: "and_then m f = Inr y \<longleftrightarrow> (\<exists>v. m = Inr v \<and> f v = Inr y)"
  by (cases m) auto






lemma match_attractions_grows:
  "match_attractions kws cs acc = Inr tbl \<Longrightarrow> acc \<noteq> [] \<Longrightarrow> tbl \<noteq> []"
  by (induction cs arbitrary: acc) (auto split: sum.splits if_splits simp: Let_def)















section \<open>The name search\<close>

text \<open>\<^verbatim>\<open>str.lower()\<close> folds the capitals: the search does not see the case of a letter.\<close>

lemma lower_capitals: "lower ''ABCDEFGHIJKLMNOPQRSTUVWXYZ'' = ''abcdefghijklmnopqrstuvwxyz''"
  by code_simp

lemma named_lowered:
  "named c \<Longrightarrow> and_then (item c ''name'') lower_method = Inr (lower (candidate_name c))"
  by (auto simp: named_def candidate_name_def split: sum.splits json.splits)

lemma unnamed_raises:
  "\<not> named c \<Longrightarrow> \<exists>e. and_then (item c ''name'') lower_method = Inl e"
  by (cases "item c ''name''"; cases "projr (item c ''name'')")
    (auto simp: named_def no_attribute_def)

lemma flattens_row: "flattens c \<Longrightarrow> extract_attraction_info c = Inr (attraction_row c)"
  by (auto simp: flattens_def attraction_row_def split: sum.splits)

lemma not_flattens_raises: "\<not> flattens c \<Longrightarrow> \<exists>e. extract_attraction_info c = Inl e"
  by (auto simp: flattens_def split: sum.splits)

lemma keep_test:
  "list_all (\<lambda>keyword. keyword \<in> set (split (lower (candidate_name c)))) (split (lower query))
     = matches query c"
  by (auto simp: matches_def token_match_def list_all_iff)

lemma match_attractions_iff:
  "match_attractions (split (lower query)) cs acc = Inr tbl \<longleftrightarrow>
     list_all named cs \<and> list_all flattens (filter (matches query) cs)
     \<and> tbl = acc @ map attraction_row (filter (matches query) cs)"
proof (induction cs arbitrary: acc)
  case Nil
  show ?case by auto
next
  case (Cons c cs)
  show ?case
  proof (cases "named c")
    case False
    from unnamed_raises [OF False] obtain e
      where "and_then (item c ''name'') lower_method = Inl e" by blast
    with False show ?thesis by simp
  next
    case named: True
    note low = named_lowered [OF named]
    show ?thesis
    proof (cases "matches query c")
      case False
      with named low Cons.IH [of acc] show ?thesis
        by (simp add: Let_def keep_test)
    next
      case matching: True
      show ?thesis
      proof (cases "flattens c")
        case False
        from not_flattens_raises [OF False] obtain e
          where "extract_attraction_info c = Inl e" by blast
        with False named low matching show ?thesis
          by (simp add: Let_def keep_test)
      next
        case True
        with named low matching flattens_row [OF True] Cons.IH [of "acc @ [attraction_row c]"]
        show ?thesis
          by (simp add: Let_def keep_test)
      qed
    qed
  qed
qed

lemma item_contains: "item v k = Inr x \<Longrightarrow> contains v k = Inr True"
  by (cases v) (auto split: option.splits)


lemma name_search_processed:
  assumes "payload response = Inr data"
    and "item data ''_embedded'' = Inr embedded"
    and "item embedded ''attractions'' = Inr listing"
    and "iter listing = Inr candidates"
  shows "process_attractions identifier ''name'' response = Inr (tbl, err) \<longleftrightarrow>
     list_all named candidates
     \<and> list_all flattens (filter (matches identifier) candidates)
     \<and> tbl = map attraction_row (filter (matches identifier) candidates)
     \<and> err = (if tbl = [] then Some ''No matching attractions found with the name.'' else None)"
proof -
  have "process_attractions identifier ''name'' response =
      and_then (match_attractions (split (lower identifier)) candidates [])
        (\<lambda>matched_attractions.
           if matched_attractions = []
           then Inr (matched_attractions, Some ''No matching attractions found with the name.'')
           else Inr (matched_attractions, None))"
    using assms by (simp add: process_attractions_def item_contains Let_def)
  then show ?thesis
    by (auto simp: and_then_Inr_iff match_attractions_iff)
qed

lemma wrapped_completed:
  assumes "identifier_type = ''name'' \<or> identifier_type = ''id''" and "identifier \<noteq> []"
    and "attraction_attempts net (Get (attraction_link identifier identifier_type api_key) [])
           5 [0..<5] 1 None w = (Completed (Some response), w1)"
    and "status_code response = 200"
  shows "find_attraction_info_wrapped net identifier identifier_type api_key w =
    (process_attractions identifier identifier_type response, w1)"
  using assms by (auto simp: find_attraction_info_wrapped_def)

lemma find_uncached:
  assumes "map_of c (i, t, k) = None"
  shows "fst (find_attraction_info net i t k (c, w)) = fst (find_attraction_info_wrapped net i t k w)"
    and "snd (snd (find_attraction_info net i t k (c, w))) = snd (find_attraction_info_wrapped net i t k w)"
proof -
  from assms have miss: "map_of (fst (c, w)) (i, t, k) = None" by simp
  obtain res w1 where r: "find_attraction_info_wrapped net i t k (snd (c, w)) = (res, w1)"
    by (cases "find_attraction_info_wrapped net i t k (snd (c, w))")
  show "fst (find_attraction_info net i t k (c, w)) = fst (find_attraction_info_wrapped net i t k w)"
    using r find_raised [OF miss, of net _ w1] find_returned [OF miss, of net _ w1]
    by (cases res) auto
  show "snd (snd (find_attraction_info net i t k (c, w))) = snd (find_attraction_info_wrapped net i t k w)"
    using r find_raised [OF miss, of net _ w1] find_returned [OF miss, of net _ w1]
    by (cases res) auto
qed

lemma found_is_processed:
  assumes "identifier_type = ''name'' \<or> identifier_type = ''id''" and "identifier \<noteq> []"
    and "map_of c (identifier, identifier_type, api_key) = None"
    and "attraction_attempts net (Get (attraction_link identifier identifier_type api_key) [])
           5 [0..<5] 1 None w = (Completed (Some response), w1)"
    and "status_code response = 200"
  shows "fst (find_attraction_info net identifier identifier_type api_key (c, w)) =
    process_attractions identifier identifier_type response"
  using find_uncached(1) [OF assms(3), of net w] wrapped_completed [OF assms(1,2,4,5)]
  by simp

text \<open>
  C4. Take a name search that is not served from the cache and whose retry loop ends with
  a 200 response whose body holds the candidates of \<^verbatim>\<open>data['_embedded']['attractions']\<close>.
  The call returns an envelope exactly when every candidate is named and every matching
  candidate flattens, and its table is then the rows of exactly the candidates whose
  lower-cased name has every word of the lower-cased query among its words, in the order
  of the response. The rule looks at the sets of lower-cased words only: their order and
  the case of their letters do not matter, every word of the query is needed, and a part
  of a word is no match.
\<close>

theorem name_search_keeps_token_matches:
  assumes "identifier \<noteq> []"
    and "map_of c (identifier, ''name'', api_key) = None"
    and "attraction_attempts net (Get (attraction_link identifier ''name'' api_key) [])
           5 [0..<5] 1 None w = (Completed (Some response), w1)"
    and "status_code response = 200"
    and "payload response = Inr data"
    and "item data ''_embedded'' = Inr embedded"
    and "item embedded ''attractions'' = Inr listing"
    and "iter listing = Inr candidates"
  shows "fst (find_attraction_info net identifier ''name'' api_key (c, w)) = Inr (tbl, err)
    \<longleftrightarrow> list_all named candidates
      \<and> list_all flattens
          (filter (\<lambda>a. set (split (lower identifier)) \<subseteq> set (split (lower (candidate_name a))))
             candidates)
      \<and> tbl = map attraction_row
          (filter (\<lambda>a. set (split (lower identifier)) \<subseteq> set (split (lower (candidate_name a))))
             candidates)
      \<and> err = (if tbl = [] then Some ''No matching attractions found with the name.'' else None)"
proof -
  have "fst (find_attraction_info net identifier ''name'' api_key (c, w)) =
      process_attractions identifier ''name'' response"
    using assms(1-4) by (intro found_is_processed) simp_all
  moreover have "matches identifier =
      (\<lambda>a. set (split (lower identifier)) \<subseteq> set (split (lower (candidate_name a))))"
    by (simp add: matches_def token_match_def fun_eq_iff)
  ultimately show ?thesis
    using name_search_processed [OF assms(5-8), of "identifier" tbl err] by simp
qed

theorem name_search_keeps_token_matches_witness:
  "fst (find_attraction_info
          (answers [too_many_requests ''https://app.ticketmaster.com/discovery/v2/attractions.json?keyword=swift%20TAYLOR&apikey=key'',
                    ok_with ''https://app.ticketmaster.com/discovery/v2/attractions.json?keyword=swift%20TAYLOR&apikey=key''
        (JObj [(''_embedded'', JObj [(''attractions'', JList
          [JObj [(''name'', JStr ''Taylor Swift''), (''id'', JStr ''K8vZ9175Tr0''),
                 (''upcomingEvents'', JObj [(''ticketmaster'', JInt 31), (''_total'', JInt 54)])],
           JObj [(''name'', JStr ''Swiftly Taylored''), (''id'', JStr ''K8vZ917xxx1'')],
           JObj [(''name'', JStr ''TAYLOR  SWIFT World Tour''), (''id'', JStr ''K8vZ917xxx2'')],
           JObj [(''name'', JStr ''Taylor Dayne''), (''id'', JStr ''K8vZ917xxx3''),
                 (''upcomingEvents'', JNull)]])])])])
          ''swift TAYLOR'' ''name'' ''key'' ([], \<lparr>requests = 0, sleeps = []\<rparr>))
     = Inr ([[(''name'', JStr ''Taylor Swift''), (''ID'', JStr ''K8vZ9175Tr0''),
             (''Ticketmaster Upcoming Events'', JInt 31), (''Total Upcoming Events'', JInt 54)],
            [(''name'', JStr ''TAYLOR  SWIFT World Tour''), (''ID'', JStr ''K8vZ917xxx2''),
             (''Ticketmaster Upcoming Events'', JInt 0), (''Total Upcoming Events'', JInt 0)]],
            None)
   \<and> filter (\<lambda>a. set (split (lower ''swift TAYLOR'')) \<subseteq> set (split (lower (candidate_name a))))
          [JObj [(''name'', JStr ''Taylor Swift''), (''id'', JStr ''K8vZ9175Tr0''),
                 (''upcomingEvents'', JObj [(''ticketmaster'', JInt 31), (''_total'', JInt 54)])],
           JObj [(''name'', JStr ''Swiftly Taylored''), (''id'', JStr ''K8vZ917xxx1'')],
           JObj [(''name'', JStr ''TAYLOR  SWIFT World Tour''), (''id'', JStr ''K8vZ917xxx2'')],
           JObj [(''name'', JStr ''Taylor Dayne''), (''id'', JStr ''K8vZ917xxx3''),
                 (''upcomingEvents'', JNull)]]
       = [JObj [(''name'', JStr ''Taylor Swift''), (''id'', JStr ''K8vZ9175Tr0''),
                 (''upcomingEvents'', JObj [(''ticketmaster'', JInt 31), (''_total'', JInt 54)])],
          JObj [(''name'', JStr ''TAYLOR  SWIFT World Tour''), (''id'', JStr ''K8vZ917xxx2'')]]
   \<and> \<not> flattens (JObj [(''name'', JStr ''Taylor Dayne''), (''id'', JStr ''K8vZ917xxx3''),
                 (''upcomingEvents'', JNull)])
   \<and> token_match ''Swift Taylor'' ''Taylor Swift''
   \<and> token_match ''Taylor'' ''Taylor Swift World Tour''
   \<and> token_match ''taylor SWIFT'' ''Taylor Swift''
   \<and> \<not> token_match ''Tay'' ''Taylor Swift''
   \<and> \<not> token_match ''Taylor Swift'' ''Taylor''
   \<and> lower ''Taylor SWIFT'' = ''taylor swift''"
  (is "?found \<and> ?kept \<and> ?dropped \<and> ?swapped \<and> ?part \<and> ?cased \<and> ?substring \<and> ?missing \<and> ?lowered")
proof -
  have h1: "''swift TAYLOR'' \<noteq> []" by simp
  have h2: "map_of ([] :: cache) (''swift TAYLOR'', ''name'', ''key'') = None" by simp
  have h3: "attraction_attempts
      (answers [too_many_requests ''https://app.ticketmaster.com/discovery/v2/attractions.json?keyword=swift%20TAYLOR&apikey=key'',
                    ok_with ''https://app.ticketmaster.com/discovery/v2/attractions.json?keyword=swift%20TAYLOR&apikey=key''
        (JObj [(''_embedded'', JObj [(''attractions'', JList
          [JObj [(''name'', JStr ''Taylor Swift''), (''id'', JStr ''K8vZ9175Tr0''),
                 (''upcomingEvents'', JObj [(''ticketmaster'', JInt 31), (''_total'', JInt 54)])],
           JObj [(''name'', JStr ''Swiftly Taylored''), (''id'', JStr ''K8vZ917xxx1'')],
           JObj [(''name'', JStr ''TAYLOR  SWIFT World Tour''), (''id'', JStr ''K8vZ917xxx2'')],
           JObj [(''name'', JStr ''Taylor Dayne''), (''id'', JStr ''K8vZ917xxx3''),
                 (''upcomingEvents'', JNull)]])])])])
      (Get (attraction_link ''swift TAYLOR'' ''name'' ''key'') []) 5 [0..<5] 1 None
      \<lparr>requests = 0, sleeps = []\<rparr>
    = (Completed (Some (ok_with ''https://app.ticketmaster.com/discovery/v2/attractions.json?keyword=swift%20TAYLOR&apikey=key''
        (JObj [(''_embedded'', JObj [(''attractions'', JList
          [JObj [(''name'', JStr ''Taylor Swift''), (''id'', JStr ''K8vZ9175Tr0''),
                 (''upcomingEvents'', JObj [(''ticketmaster'', JInt 31), (''_total'', JInt 54)])],
           JObj [(''name'', JStr ''Swiftly Taylored''), (''id'', JStr ''K8vZ917xxx1'')],
           JObj [(''name'', JStr ''TAYLOR  SWIFT World Tour''), (''id'', JStr ''K8vZ917xxx2'')],
           JObj [(''name'', JStr ''Taylor Dayne''), (''id'', JStr ''K8vZ917xxx3''),
                 (''upcomingEvents'', JNull)]])])]))),
       \<lparr>requests = 2, sleeps = [1]\<rparr>)"
    by code_simp
  have h4: "status_code (ok_with u b) = 200" for u b by (simp add: ok_with_def)
  have h5: "payload (ok_with u b) = Inr b" for u b by (simp add: ok_with_def)
  have h6: "item (JObj [(''_embedded'', e)]) ''_embedded'' = Inr e" for e by simp
  have h7: "item (JObj [(''attractions'', l)]) ''attractions'' = Inr l" for l by simp
  have h8: "iter (JList l) = Inr l" for l by simp
  have shape: "list_all named
          [JObj [(''name'', JStr ''Taylor Swift''), (''id'', JStr ''K8vZ9175Tr0''),
                 (''upcomingEvents'', JObj [(''ticketmaster'', JInt 31), (''_total'', JInt 54)])],
           JObj [(''name'', JStr ''Swiftly Taylored''), (''id'', JStr ''K8vZ917xxx1'')],
           JObj [(''name'', JStr ''TAYLOR  SWIFT World Tour''), (''id'', JStr ''K8vZ917xxx2'')],
           JObj [(''name'', JStr ''Taylor Dayne''), (''id'', JStr ''K8vZ917xxx3''),
                 (''upcomingEvents'', JNull)]]
      \<and> list_all flattens (filter (\<lambda>a. set (split (lower ''swift TAYLOR'')) \<subseteq> set (split (lower (candidate_name a))))
          [JObj [(''name'', JStr ''Taylor Swift''), (''id'', JStr ''K8vZ9175Tr0''),
                 (''upcomingEvents'', JObj [(''ticketmaster'', JInt 31), (''_total'', JInt 54)])],
           JObj [(''name'', JStr ''Swiftly Taylored''), (''id'', JStr ''K8vZ917xxx1'')],
           JObj [(''name'', JStr ''TAYLOR  SWIFT World Tour''), (''id'', JStr ''K8vZ917xxx2'')],
           JObj [(''name'', JStr ''Taylor Dayne''), (''id'', JStr ''K8vZ917xxx3''),
                 (''upcomingEvents'', JNull)]])
      \<and> [[(''name'', JStr ''Taylor Swift''), (''ID'', JStr ''K8vZ9175Tr0''),
             (''Ticketmaster Upcoming Events'', JInt 31), (''Total Upcoming Events'', JInt 54)],
            [(''name'', JStr ''TAYLOR  SWIFT World Tour''), (''ID'', JStr ''K8vZ917xxx2''),
             (''Ticketmaster Upcoming Events'', JInt 0), (''Total Upcoming Events'', JInt 0)]]
        = map attraction_row (filter (\<lambda>a. set (split (lower ''swift TAYLOR'')) \<subseteq> set (split (lower (candidate_name a))))
          [JObj [(''name'', JStr ''Taylor Swift''), (''id'', JStr ''K8vZ9175Tr0''),
                 (''upcomingEvents'', JObj [(''ticketmaster'', JInt 31), (''_total'', JInt 54)])],
           JObj [(''name'', JStr ''Swiftly Taylored''), (''id'', JStr ''K8vZ917xxx1'')],
           JObj [(''name'', JStr ''TAYLOR  SWIFT World Tour''), (''id'', JStr ''K8vZ917xxx2'')],
           JObj [(''name'', JStr ''Taylor Dayne''), (''id'', JStr ''K8vZ917xxx3''),
                 (''upcomingEvents'', JNull)]])
      \<and> None = (if [[(''name'', JStr ''Taylor Swift''), (''ID'', JStr ''K8vZ9175Tr0''),
             (''Ticketmaster Upcoming Events'', JInt 31), (''Total Upcoming Events'', JInt 54)],
            [(''name'', JStr ''TAYLOR  SWIFT World Tour''), (''ID'', JStr ''K8vZ917xxx2''),
             (''Ticketmaster Upcoming Events'', JInt 0), (''Total Upcoming Events'', JInt 0)]] = []
                 then Some ''No matching attractions found with the name.'' else None)"
    by code_simp
  have found: ?found
    by (rule iffD2 [OF name_search_keeps_token_matches [OF h1 h2 h3 h4 h5 h6 h7 h8] shape])
  have kept: ?kept by code_simp
  have dropped: ?dropped by code_simp
  have swapped: ?swapped by code_simp
  have part: ?part by code_simp
  have cased: ?cased by code_simp
  have substring: ?substring by code_simp
  have missing: ?missing by code_simp
  have lowered: ?lowered by code_simp
  show ?thesis
    by (rule conjI [OF found conjI [OF kept conjI [OF dropped conjI [OF swapped conjI [OF part
          conjI [OF cased conjI [OF substring conjI [OF missing lowered]]]]]]]])
qed

section \<open>Nothing found\<close>



text \<open>
  A response the retry loop is left with and whose status is not 200 is answered with its
  status code, whatever its body.
\<close>

lemma wrapped_other_status:
  assumes "identifier_type = ''name'' \<or> identifier_type = ''id''" and "identifier \<noteq> []"
    and "attraction_attempts net (Get (attraction_link identifier identifier_type api_key) [])
           5 [0..<5] 1 None w = (Completed (Some response), w1)"
    and "status_code response \<noteq> 200"
  shows "find_attraction_info_wrapped net identifier identifier_type api_key w =
    (Inr ([], Some (''Error fetching data: Status code '' @ str_int (status_code response))), w1)"
  using assms by (auto simp: find_attraction_info_wrapped_def)




section \<open>Prices\<close>

text \<open>
  Where the nested members of an event are missing, the defaults of the chains of
  \<^verbatim>\<open>get\<close> take their place and the event flattens.
\<close>

lemma extract_event_info_defaults:
  assumes "map_of members ''priceRanges'' = None" and "map_of members ''_embedded'' = None"
    and "map_of members ''dates'' = None" and "map_of members ''sales'' = None"
  shows "extract_event_info (JObj members) =
    Inr [(''Event Name'', case map_of members ''name'' of None \<Rightarrow> JNull | Some v \<Rightarrow> v),
         (''Event ID'', case map_of members ''id'' of None \<Rightarrow> JNull | Some v \<Rightarrow> v),
         (''Start Date'', JNull), (''Start Time'', JNull), (''Venue'', JNull),
         (''Venue ID'', JStr ''N/A''), (''City'', JNull), (''Country'', JNull),
         (''publicsale_start'', JNull), (''publicsale_end'', JNull),
         (''presale_start'', JNull), (''presale_end'', JNull),
         (''Min Price'', JNull), (''Max Price'', JNull), (''Average Price'', JNull)]"
  using assms
  by (simp add: extract_event_info_def price_range_def average_def venue_def venue_nested_def
      nested_def presale_def)

lemma price_range_first:
  assumes "item event ''priceRanges'' = Inr (JList (first_range # others))"
    and "get first_range ''min'' JNull = Inr min_price"
    and "get first_range ''max'' JNull = Inr max_price"
  shows "price_range event = Inr (min_price, max_price)"
  using assms by (simp add: price_range_def item_contains)

lemma extract_event_info_prices:
  assumes "extract_event_info event = Inr row"
  obtains prices avg_price where "price_range event = Inr prices"
    and "average (fst prices) (snd prices) = Inr avg_price"
    and "item (JObj row) ''Min Price'' = Inr (fst prices)"
    and "item (JObj row) ''Max Price'' = Inr (snd prices)"
    and "item (JObj row) ''Average Price'' = Inr avg_price"
proof -
  from assms obtain prices avg_price venue_id event_name event_id start_date start_time
      venue_name city country publicsale_start publicsale_end presale_start presale_end
    where p: "price_range event = Inr prices"
      and a: "average (fst prices) (snd prices) = Inr avg_price"
      and r: "row = [(''Event Name'', event_name),
          (''Event ID'', event_id),
          (''Start Date'', start_date),
          (''Start Time'', start_time),
          (''Venue'', venue_name),
          (''Venue ID'', venue_id),
          (''City'', city),
          (''Country'', country),
          (''publicsale_start'', publicsale_start),
          (''publicsale_end'', publicsale_end),
          (''presale_start'', presale_start),
          (''presale_end'', presale_end),
          (''Min Price'', fst prices),
          (''Max Price'', snd prices),
          (''Average Price'', avg_price)]"
    unfolding extract_event_info_def and_then_Inr_iff by blast
  from r have "item (JObj row) ''Min Price'' = Inr (fst prices)"
    and "item (JObj row) ''Max Price'' = Inr (snd prices)"
    and "item (JObj row) ''Average Price'' = Inr avg_price"
    by simp_all
  with p a show ?thesis by (rule that)
qed

lemma average_ints:
  assumes "average (JInt a) (JInt b) = Inr avg_price" and "a \<noteq> 0" and "b \<noteq> 0"
  shows "avg_price = JFloat (of_int (a + b) / 2)"
  using assms by (auto simp: average_def add_def halve_def split: if_splits)

text \<open>
  C5. When the \<^verbatim>\<open>priceRanges\<close> of an event is a list with a first element and the event
  flattens, the row's \<^verbatim>\<open>Min Price\<close> and \<^verbatim>\<open>Max Price\<close> are the \<^verbatim>\<open>min\<close> and \<^verbatim>\<open>max\<close> of that
  element (\<^verbatim>\<open>None\<close> where it has none). Its \<^verbatim>\<open>Average Price\<close> is \<^verbatim>\<open>(min + max) / 2\<close> when
  both are true values, and \<^verbatim>\<open>None\<close> otherwise, so also when one of them is 0. For
  integer prices whose sum is at most \<open>2^53\<close> in size the average is the exact half
  of the sum: 50 and 150 give 100.
\<close>

theorem prices_and_average:
  assumes "item event ''priceRanges'' = Inr (JList (first_range # others))"
    and "get first_range ''min'' JNull = Inr min_price"
    and "get first_range ''max'' JNull = Inr max_price"
    and "extract_event_info event = Inr row"
  shows "item (JObj row) ''Min Price'' = Inr min_price
       \<and> item (JObj row) ''Max Price'' = Inr max_price
       \<and> (truthy min_price \<and> truthy max_price \<longrightarrow>
            item (JObj row) ''Average Price'' = and_then (add min_price max_price) halve)
       \<and> (\<not> (truthy min_price \<and> truthy max_price) \<longrightarrow>
            item (JObj row) ''Average Price'' = Inr JNull)
       \<and> (min_price = JInt a \<and> max_price = JInt b \<and> a \<noteq> 0 \<and> b \<noteq> 0 \<and> \<bar>a + b\<bar> \<le> 2 ^ 53 \<longrightarrow>
            item (JObj row) ''Average Price'' = Inr (JFloat (of_int (a + b) / 2)))"
proof -
  from assms(4) obtain prices avg_price where p: "price_range event = Inr prices"
    and a: "average (fst prices) (snd prices) = Inr avg_price"
    and mn: "item (JObj row) ''Min Price'' = Inr (fst prices)"
    and mx: "item (JObj row) ''Max Price'' = Inr (snd prices)"
    and av: "item (JObj row) ''Average Price'' = Inr avg_price"
    by (rule extract_event_info_prices)
  from p price_range_first [OF assms(1-3)] have prices: "prices = (min_price, max_price)"
    by simp
  with a have avg: "average min_price max_price = Inr avg_price" by simp
  have "truthy min_price \<and> truthy max_price \<longrightarrow>
      item (JObj row) ''Average Price'' = and_then (add min_price max_price) halve"
    using avg unfolding av by (auto simp: average_def)
  moreover have "\<not> (truthy min_price \<and> truthy max_price) \<longrightarrow>
      item (JObj row) ''Average Price'' = Inr JNull"
    using avg unfolding av by (auto simp: average_def)
  moreover have "min_price = JInt a \<and> max_price = JInt b \<and> a \<noteq> 0 \<and> b \<noteq> 0 \<and> \<bar>a + b\<bar> \<le> 2 ^ 53 \<longrightarrow>
      item (JObj row) ''Average Price'' = Inr (JFloat (of_int (a + b) / 2))"
    using avg average_ints unfolding av by blast
  moreover from mn mx prices have "item (JObj row) ''Min Price'' = Inr min_price"
    and "item (JObj row) ''Max Price'' = Inr max_price"
    by simp_all
  ultimately show ?thesis
    by blast
qed


theorem prices_and_average_witness:
  "extract_event_info
     (JObj [(''name'', JStr ''Pinkpop 2024 (Sunday)''), (''id'', JStr ''Z698xZbpZ171_uE''),
            (''priceRanges'', JList [JObj [(''min'', JInt 50), (''max'', JInt 150)]])])
     = Inr [(''Event Name'', JStr ''Pinkpop 2024 (Sunday)''), (''Event ID'', JStr ''Z698xZbpZ171_uE''),
            (''Start Date'', JNull), (''Start Time'', JNull), (''Venue'', JNull),
            (''Venue ID'', JStr ''N/A''), (''City'', JNull), (''Country'', JNull),
            (''publicsale_start'', JNull), (''publicsale_end'', JNull),
            (''presale_start'', JNull), (''presale_end'', JNull),
            (''Min Price'', JInt 50), (''Max Price'', JInt 150), (''Average Price'', JFloat 100)]
   \<and> item (JObj [(''Event Name'', JStr ''Pinkpop 2024 (Sunday)''), (''Event ID'', JStr ''Z698xZbpZ171_uE''),
            (''Start Date'', JNull), (''Start Time'', JNull), (''Venue'', JNull),
            (''Venue ID'', JStr ''N/A''), (''City'', JNull), (''Country'', JNull),
            (''publicsale_start'', JNull), (''publicsale_end'', JNull),
            (''presale_start'', JNull), (''presale_end'', JNull),
            (''Min Price'', JInt 50), (''Max Price'', JInt 150), (''Average Price'', JFloat 100)]) ''Min Price'' = Inr (JInt 50)
   \<and> item (JObj [(''Event Name'', JStr ''Pinkpop 2024 (Sunday)''), (''Event ID'', JStr ''Z698xZbpZ171_uE''),
            (''Start Date'', JNull), (''Start Time'', JNull), (''Venue'', JNull),
            (''Venue ID'', JStr ''N/A''), (''City'', JNull), (''Country'', JNull),
            (''publicsale_start'', JNull), (''publicsale_end'', JNull),
            (''presale_start'', JNull), (''presale_end'', JNull),
            (''Min Price'', JInt 50), (''Max Price'', JInt 150), (''Average Price'', JFloat 100)]) ''Max Price'' = Inr (JInt 150)
   \<and> item (JObj [(''Event Name'', JStr ''Pinkpop 2024 (Sunday)''), (''Event ID'', JStr ''Z698xZbpZ171_uE''),
            (''Start Date'', JNull), (''Start Time'', JNull), (''Venue'', JNull),
            (''Venue ID'', JStr ''N/A''), (''City'', JNull), (''Country'', JNull),
            (''publicsale_start'', JNull), (''publicsale_end'', JNull),
            (''presale_start'', JNull), (''presale_end'', JNull),
            (''Min Price'', JInt 50), (''Max Price'', JInt 150), (''Average Price'', JFloat 100)]) ''Average Price'' = Inr (JFloat 100)
   \<and> extract_event_info
     (JObj [(''name'', JStr ''Pinkpop 2024 (Free Entry)''), (''id'', JStr ''Z698xZbpZ171_uF''),
            (''priceRanges'', JList [JObj [(''min'', JInt 0), (''max'', JInt 150)]])])
     = Inr [(''Event Name'', JStr ''Pinkpop 2024 (Free Entry)''), (''Event ID'', JStr ''Z698xZbpZ171_uF''),
            (''Start Date'', JNull), (''Start Time'', JNull), (''Venue'', JNull),
            (''Venue ID'', JStr ''N/A''), (''City'', JNull), (''Country'', JNull),
            (''publicsale_start'', JNull), (''publicsale_end'', JNull),
            (''presale_start'', JNull), (''presale_end'', JNull),
            (''Min Price'', JInt 0), (''Max Price'', JInt 150), (''Average Price'', JNull)]
   \<and> item (JObj [(''Event Name'', JStr ''Pinkpop 2024 (Free Entry)''), (''Event ID'', JStr ''Z698xZbpZ171_uF''),
            (''Start Date'', JNull), (''Start Time'', JNull), (''Venue'', JNull),
            (''Venue ID'', JStr ''N/A''), (''City'', JNull), (''Country'', JNull),
            (''publicsale_start'', JNull), (''publicsale_end'', JNull),
            (''presale_start'', JNull), (''presale_end'', JNull),
            (''Min Price'', JInt 0), (''Max Price'', JInt 150), (''Average Price'', JNull)]) ''Average Price'' = Inr JNull"
  (is "?priced \<and> ?min \<and> ?max \<and> ?avg \<and> ?free \<and> ?none")
proof -
  have priced: ?priced by code_simp
  have free: ?free by code_simp
  have r0: "item (JObj [(''name'', JStr ''Pinkpop 2024 (Sunday)''), (''id'', JStr ''Z698xZbpZ171_uE''),
            (''priceRanges'', JList [JObj [(''min'', JInt 50), (''max'', JInt 150)]])]) ''priceRanges''
      = Inr (JList (JObj [(''min'', JInt 50), (''max'', JInt 150)] # []))"
    by simp
  have mn0: "get (JObj [(''min'', JInt 50), (''max'', JInt 150)]) ''min'' JNull = Inr (JInt 50)"
    by simp
  have mx0: "get (JObj [(''min'', JInt 50), (''max'', JInt 150)]) ''max'' JNull = Inr (JInt 150)"
    by simp
  note inst0 = prices_and_average [OF r0 mn0 mx0 priced, of 50 150]
  have min: ?min by (rule conjunct1 [OF inst0])
  have max: ?max by (rule conjunct1 [OF conjunct2 [OF inst0]])
  have ints: "JInt 50 = JInt 50 \<and> JInt 150 = JInt 150 \<and> (50::int) \<noteq> 0 \<and> (150::int) \<noteq> 0
      \<and> \<bar>50 + 150 :: int\<bar> \<le> 2 ^ 53"
    by simp
  have half: "item (JObj [(''Event Name'', JStr ''Pinkpop 2024 (Sunday)''), (''Event ID'', JStr ''Z698xZbpZ171_uE''),
            (''Start Date'', JNull), (''Start Time'', JNull), (''Venue'', JNull),
            (''Venue ID'', JStr ''N/A''), (''City'', JNull), (''Country'', JNull),
            (''publicsale_start'', JNull), (''publicsale_end'', JNull),
            (''presale_start'', JNull), (''presale_end'', JNull),
            (''Min Price'', JInt 50), (''Max Price'', JInt 150), (''Average Price'', JFloat 100)]) ''Average Price''
      = Inr (JFloat (of_int (50 + 150) / 2))"
    by (rule mp [OF conjunct2 [OF conjunct2 [OF conjunct2 [OF conjunct2 [OF inst0]]]] ints])
  have hundred: "of_int (50 + 150) / 2 = (100 :: rat)" by simp
  have avg: ?avg using half unfolding hundred .
  have r1: "item (JObj [(''name'', JStr ''Pinkpop 2024 (Free Entry)''), (''id'', JStr ''Z698xZbpZ171_uF''),
            (''priceRanges'', JList [JObj [(''min'', JInt 0), (''max'', JInt 150)]])]) ''priceRanges''
      = Inr (JList (JObj [(''min'', JInt 0), (''max'', JInt 150)] # []))"
    by simp
  have mn1: "get (JObj [(''min'', JInt 0), (''max'', JInt 150)]) ''min'' JNull = Inr (JInt 0)"
    by simp
  have mx1: "get (JObj [(''min'', JInt 0), (''max'', JInt 150)]) ''max'' JNull = Inr (JInt 150)"
    by simp
  note inst1 = prices_and_average [OF r1 mn1 mx1 free, of 0 150]
  have falsy: "\<not> (truthy (JInt 0) \<and> truthy (JInt 150))" by simp
  have none: ?none
    by (rule mp [OF conjunct1 [OF conjunct2 [OF conjunct2 [OF conjunct2 [OF inst1]]]] falsy])
  show ?thesis
    by (rule conjI [OF priced conjI [OF min conjI [OF max conjI [OF avg conjI [OF free none]]]]])
qed

end
